theory Spec2Isabelle
  imports Complex_Main "HOL-Library.Word" "HOL-Library.Product_Lexorder"
begin

section \<open>Data model of the voting contract\<close>

text \<open>
  The embedding follows \<^verbatim>\<open>contracts/eosio.system/voting.cpp\<close>. The tables and the
  global record are declared in \<^verbatim>\<open>eosio.system.hpp\<close>; the records below carry the
  fields that \<^verbatim>\<open>voting.cpp\<close> reads and writes.

  Numbers. \<^verbatim>\<open>account_name\<close> is an unsigned 64-bit integer, zero meaning "no
  account". An \<^verbatim>\<open>int64_t\<close> is a 64-bit word read in two's complement (\<open>sint\<close>):
  \<open>+\<close> and \<open>-\<close> wrap around. A \<^verbatim>\<open>double\<close> is either a real number or
  not-a-number. Its sums and differences and the conversion from \<^verbatim>\<open>int64_t\<close> are
  rounded to the nearest number with a 53-bit significand, ties to even; the conversion to
  \<^verbatim>\<open>int64_t\<close> truncates toward zero and is undefined outside the range of the type.
  The product, the quotient and the sine inside \<^verbatim>\<open>inverseVoteWeight\<close> are taken
  over the reals, without rounding. Infinities are not values of the model: sums beyond
  the largest double are not modelled, and the one place where the source divides by zero
  (and then takes the sine of an infinity) answers not-a-number, as the source does.
\<close>

type_synonym account_name = "64 word"
type_synonym int64 = "64 word"
type_synonym block_timestamp = "32 word"
type_synonym public_key = "nat \<times> 8 word list"
type_synonym producer_key = "account_name \<times> public_key"

datatype double = Finite real | NaN

datatype error =
    Assert string
  | MissingAuth account_name
  | Undefined string

record voter_info =
  owner :: account_name
  proxy :: account_name
  producers :: "account_name list"
  staked :: int64
  last_vote_weight :: double
  proxied_vote_weight :: double
  is_proxy :: bool

record producer_info =
  owner :: account_name
  total_votes :: double
  producer_key :: public_key
  is_active :: bool
  url :: string
  location :: "16 word"

record eosio_global_state =
  last_producer_schedule_update :: block_timestamp
  total_activated_stake :: int64
  thresh_activated_stake_time :: "64 word"
  last_producer_schedule_size :: "16 word"
  total_producer_vote_weight :: double

record state =
  voters_tbl :: "account_name \<rightharpoonup> voter_info"
  producers_tbl :: "producer_info list"
  gstate :: eosio_global_state

subsection \<open>Arithmetic on doubles\<close>

text \<open>Rounding to the nearest integer, ties to even, and with it rounding of a real to
  53 significant bits: \<open>e\<close> is the exponent of \<open>x\<close> and \<open>u\<close> the distance between
  neighbouring doubles there.\<close>

definition round_half_even :: "real \<Rightarrow> int" where
  "round_half_even y =
     (let f = \<lfloor>y\<rfloor>
      in if y - of_int f < 1 / 2 then f
         else if 1 / 2 < y - of_int f then f + 1
         else if even f then f else f + 1)"

definition round_double :: "real \<Rightarrow> real" where
  "round_double x =
     (if x = 0 then 0
      else let e = \<lfloor>log 2 \<bar>x\<bar>\<rfloor>; u = 2 powi (e - 52)
           in u * of_int (round_half_even (x / u)))"

fun dadd :: "double \<Rightarrow> double \<Rightarrow> double" where
  "dadd (Finite a) (Finite b) = Finite (round_double (a + b))"
| "dadd _ _ = NaN"

fun dsub :: "double \<Rightarrow> double \<Rightarrow> double" where
  "dsub (Finite a) (Finite b) = Finite (round_double (a - b))"
| "dsub _ _ = NaN"

fun dlt :: "double \<Rightarrow> double \<Rightarrow> bool" where
  "dlt (Finite a) (Finite b) = (a < b)"
| "dlt _ _ = False"

fun dle :: "double \<Rightarrow> double \<Rightarrow> bool" where
  "dle (Finite a) (Finite b) = (a \<le> b)"
| "dle _ _ = False"

definition of_int64 :: "int64 \<Rightarrow> double" where
  "of_int64 i = Finite (round_double (real_of_int (sint i)))"

text \<open>Conversion of a double to \<^verbatim>\<open>int64_t\<close> truncates toward zero; on not-a-number
  and on a value whose truncation is not an \<^verbatim>\<open>int64_t\<close> it is undefined.\<close>

definition trunc :: "real \<Rightarrow> int" where
  "trunc r = (if 0 \<le> r then \<lfloor>r\<rfloor> else \<lceil>r\<rceil>)"

fun to_int64 :: "double \<Rightarrow> int64 option" where
  "to_int64 (Finite r) =
     (if - (2 ^ 63) \<le> trunc r \<and> trunc r < 2 ^ 63 then Some (word_of_int (trunc r)) else None)"
| "to_int64 NaN = None"

subsection \<open>Table access\<close>


definition active :: "producer_info \<Rightarrow> bool" where
  "active p = is_active p"

definition isActive :: "producer_info \<Rightarrow> bool" where
  "isActive p = is_active p"


definition find_producer :: "producer_info list \<Rightarrow> account_name \<Rightarrow> producer_info option" where
  "find_producer ps n = find (\<lambda>p. producer_info.owner p = n) ps"

definition modify_producer ::
  "account_name \<Rightarrow> (producer_info \<Rightarrow> producer_info) \<Rightarrow> producer_info list \<Rightarrow> producer_info list" where
  "modify_producer n f ps = map (\<lambda>p. if producer_info.owner p = n then f p else p) ps"

section \<open>Election of the producer schedule\<close>

text \<open>
  \<^verbatim>\<open>update_elected_producers\<close> walks the secondary index \<^verbatim>\<open>prototalvote\<close> of the
  producers table. The index is declared outside \<^verbatim>\<open>voting.cpp\<close>, so the rows in
  index order are a parameter \<open>idx\<close>. The loop condition holds the size bound and both
  tests on the row: the first row that fails one of them ends the loop.
\<close>

fun top_producers_loop ::
  "producer_info list \<Rightarrow> (producer_key \<times> 16 word) list \<Rightarrow> (producer_key \<times> 16 word) list" where
  "top_producers_loop [] tops = tops"
| "top_producers_loop (it # rest) tops =
     (if length tops < 21 \<and> dlt (Finite 0) (total_votes it) \<and> active it
      then top_producers_loop rest
             (tops @ [((producer_info.owner it, producer_key it), location it)])
      else tops)"

text \<open>\<^verbatim>\<open>std::sort\<close> on the pairs: \<^verbatim>\<open>producer_key\<close> compares by producer name, the pair
  then by location.\<close>

definition sort_top :: "(producer_key \<times> 16 word) list \<Rightarrow> (producer_key \<times> 16 word) list" where
  "sort_top tops = sort_key (\<lambda>item. (fst (fst item), snd item)) tops"

text \<open>
  The result is the new global record together with what was handed to
  \<^verbatim>\<open>set_proposed_producers\<close> (\<open>None\<close> on the early return). The intrinsic itself is
  the parameter \<open>set_proposed_producers\<close>: it answers a negative number on rejection.
\<close>

definition update_elected_producers ::
  "(producer_key list \<Rightarrow> int) \<Rightarrow> producer_info list \<Rightarrow> block_timestamp \<Rightarrow>
     eosio_global_state \<Rightarrow> eosio_global_state \<times> producer_key list option" where
  "update_elected_producers set_proposed_producers idx block_time g0 =
     (let g = g0\<lparr>last_producer_schedule_update := block_time\<rparr>;
          top_producers = top_producers_loop idx []
      in if length top_producers < unat (last_producer_schedule_size g) then (g, None)
         else
           let sorted_top = sort_top top_producers;
               prods = map fst sorted_top
           in if set_proposed_producers prods \<ge> 0
              then (g\<lparr>last_producer_schedule_size := of_nat (length top_producers)\<rparr>, Some prods)
              else (g, Some prods))"

section \<open>Vote weight\<close>

text \<open>
  \<^verbatim>\<open>totalProducers\<close> is the number of rows of the producers table, active or not,
  capped at 30. With an empty table and a non-zero slate size the quotient is an infinity
  and its sine is not-a-number.
\<close>

definition inverseVoteWeight :: "producer_info list \<Rightarrow> int \<Rightarrow> real \<Rightarrow> real \<Rightarrow> double" where
  "inverseVoteWeight ps stk amountVotedProducers variation =
     (if amountVotedProducers = 0 then Finite 0
      else
        let totalProducers = real (length ps);
            totalProducers' = (if totalProducers > 30 then 30 else totalProducers);
            k = 1 - variation
        in if totalProducers' = 0 then NaN
           else Finite ((k * sin (pi / 2 * (amountVotedProducers / totalProducers')) + variation)
                          * real_of_int stk))"

definition VOTE_VARIATION :: real where
  "VOTE_VARIATION = 1 / 10"

section \<open>Network activation\<close>

text \<open>\<open>min_activated_stake\<close> is a constant of the contract's header and \<open>now\<close> is what
  \<^verbatim>\<open>current_time()\<close> answers; both are parameters.\<close>

definition checkNetworkActivation ::
  "int \<Rightarrow> 64 word \<Rightarrow> eosio_global_state \<Rightarrow> eosio_global_state" where
  "checkNetworkActivation min_activated_stake now g =
     (if sint (total_activated_stake g) \<ge> min_activated_stake \<and> thresh_activated_stake_time g = 0
      then g\<lparr>thresh_activated_stake_time := now\<rparr>
      else g)"

section \<open>Propagation of a proxy's weight\<close>

text \<open>
  \<^verbatim>\<open>propagate_weight_change\<close> takes a reference to a row of the voters table. The
  table is the store and the reference is the row's key \<open>vn\<close>: the last
  \<^verbatim>\<open>modify\<close> writes the row as it is after the recursive call. Rows are never erased,
  so the key of a reference always has a row; the model answers \<open>Undefined\<close> otherwise.
  The recursion has no counter: the function is partial, and \<open>None\<close> is a call that
  does not return.
\<close>

definition modify_voter ::
  "account_name \<Rightarrow> (voter_info \<Rightarrow> voter_info) \<Rightarrow> state \<Rightarrow> state" where
  "modify_voter n f st =
     (case voters_tbl st n of
        None \<Rightarrow> st
      | Some v \<Rightarrow> st\<lparr>voters_tbl := (voters_tbl st)(n \<mapsto> f v)\<rparr>)"

fun set_total_votes ::
  "account_name list \<Rightarrow> double \<Rightarrow> producer_info list \<Rightarrow> error + producer_info list" where
  "set_total_votes [] w ps = Inr ps"
| "set_total_votes (acnt # rest) w ps =
     (case find_producer ps acnt of
        None \<Rightarrow> Inl (Assert ''producer not found'')
      | Some pitr \<Rightarrow>
          set_total_votes rest w (modify_producer acnt (\<lambda>p. p\<lparr>total_votes := w\<rparr>) ps))"

partial_function (option) propagate_weight_change ::
  "state \<Rightarrow> account_name \<Rightarrow> (error + state) option" where
  "propagate_weight_change st vn =
     (case voters_tbl st vn of
        None \<Rightarrow> Some (Inl (Undefined ''dangling voter reference''))
      | Some voter \<Rightarrow>
          if \<not> (proxy voter = 0 \<or> \<not> is_proxy voter)
          then Some (Inl (Assert ''account registered as a proxy is not allowed to use a proxy''))
          else
            let totalProds = length (filter isActive (producers_tbl st));
                totalStake = dadd (of_int64 (staked voter)) (proxied_vote_weight voter)
            in (case to_int64 totalStake of
                 None \<Rightarrow> Some (Inl (Undefined ''conversion of a double to int64_t''))
               | Some ts \<Rightarrow>
                   let new_weight =
                         inverseVoteWeight (producers_tbl st) (sint ts) (real totalProds)
                           VOTE_VARIATION
                   in if proxy voter \<noteq> 0 then
                        (case voters_tbl st (proxy voter) of
                           None \<Rightarrow> Some (Inl (Assert ''proxy not found''))
                         | Some px \<Rightarrow>
                             Option.bind
                               (propagate_weight_change
                                  (st\<lparr>voters_tbl := (voters_tbl st)
                                        (proxy voter \<mapsto>
                                           px\<lparr>proxied_vote_weight := of_int64 (staked px)\<rparr>)\<rparr>)
                                  (proxy voter))
                               (\<lambda>r. case r of
                                       Inl e \<Rightarrow> Some (Inl e)
                                     | Inr st' \<Rightarrow>
                                         Some (Inr (modify_voter vn
                                                      (\<lambda>v. v\<lparr>last_vote_weight := new_weight\<rparr>) st'))))
                      else
                        (case set_total_votes (producers voter) new_weight (producers_tbl st) of
                           Inl e \<Rightarrow> Some (Inl e)
                         | Inr ps' \<Rightarrow>
                             Some (Inr (modify_voter vn
                                          (\<lambda>v. v\<lparr>last_vote_weight := new_weight\<rparr>)
                                          (st\<lparr>producers_tbl := ps'\<rparr>))))))"

section \<open>Casting a vote\<close>

text \<open>The loop over adjacent entries of the slate (\<^verbatim>\<open>producers[i-1] < producers[i]\<close>).\<close>

fun sorted_unique :: "account_name list \<Rightarrow> bool" where
  "sorted_unique [] = True"
| "sorted_unique [x] = True"
| "sorted_unique (x # y # rest) = (x < y \<and> sorted_unique (y # rest))"

definition validate_input ::
  "account_name \<Rightarrow> account_name \<Rightarrow> account_name list \<Rightarrow> error option" where
  "validate_input voter_name pxy prods =
     (if pxy \<noteq> 0 then
        (if prods \<noteq> [] then Some (Assert ''cannot vote for producers and proxy at same time'')
         else if voter_name = pxy then Some (Assert ''cannot proxy to self'')
         else None)
      else
        (if \<not> length prods \<le> 30 then Some (Assert ''attempt to vote for too many producers'')
         else if \<not> sorted_unique prods
         then Some (Assert ''producer votes must be unique and sorted'')
         else None))"

text \<open>
  \<^verbatim>\<open>totalStaked += pxy->proxied_vote_weight\<close>: the iterator that \<^verbatim>\<open>find\<close> answered
  is dereferenced as it is. On the end iterator that is undefined behaviour, which the
  model keeps apart from the contract's own assertions.
\<close>

definition add_double :: "int64 \<Rightarrow> double \<Rightarrow> error + int64" where
  "add_double i d =
     (case to_int64 (dadd (of_int64 i) d) of
        None \<Rightarrow> Inl (Undefined ''conversion of a double to int64_t'')
      | Some t \<Rightarrow> Inr t)"

definition sub_double :: "int64 \<Rightarrow> double \<Rightarrow> error + int64" where
  "sub_double i d =
     (case to_int64 (dsub (of_int64 i) d) of
        None \<Rightarrow> Inl (Undefined ''conversion of a double to int64_t'')
      | Some t \<Rightarrow> Inr t)"

definition total_staked :: "state \<Rightarrow> voter_info \<Rightarrow> account_name \<Rightarrow> error + int64" where
  "total_staked st voter pxy =
     (if pxy \<noteq> 0 then
        (case voters_tbl st pxy of
           None \<Rightarrow> Inl (Undefined ''dereference of end iterator'')
         | Some p \<Rightarrow> add_double (staked voter) (proxied_vote_weight p))
      else Inr (staked voter))"

text \<open>Lines 185 to 205: the three branches that move \<^verbatim>\<open>total_activated_stake\<close>.\<close>

definition activate_stake ::
  "int \<Rightarrow> 64 word \<Rightarrow> state \<Rightarrow> voter_info \<Rightarrow> account_name \<Rightarrow> account_name list \<Rightarrow> bool \<Rightarrow>
     error + eosio_global_state" where
  "activate_stake min_activated_stake now st voter pxy prods voting =
     (let g = gstate st in
      if dle (last_vote_weight voter) (Finite 0) \<and> prods \<noteq> [] \<and> voting then
        (let g1 = g\<lparr>total_activated_stake := total_activated_stake g + staked voter\<rparr> in
         if dlt (Finite 0) (proxied_vote_weight voter) then
           (case add_double (total_activated_stake g1) (proxied_vote_weight voter) of
              Inl e \<Rightarrow> Inl e
            | Inr t \<Rightarrow>
                Inr (checkNetworkActivation min_activated_stake now
                       (g1\<lparr>total_activated_stake := t\<rparr>)))
         else Inr (checkNetworkActivation min_activated_stake now g1))
      else if dle (last_vote_weight voter) (Finite 0) \<and> pxy \<noteq> 0 \<and> voting then
        (case voters_tbl st pxy of
           None \<Rightarrow> Inl (Undefined ''dereference of end iterator'')
         | Some prx \<Rightarrow>
             if dlt (Finite 0) (last_vote_weight prx)
             then Inr (checkNetworkActivation min_activated_stake now
                         (g\<lparr>total_activated_stake := total_activated_stake g + staked voter\<rparr>))
             else Inr g)
      else if prods = [] \<and> pxy = 0 \<and> voting then
        (let g1 = g\<lparr>total_activated_stake := total_activated_stake g - staked voter\<rparr> in
         if dlt (Finite 0) (proxied_vote_weight voter) then
           (case sub_double (total_activated_stake g1) (proxied_vote_weight voter) of
              Inl e \<Rightarrow> Inl e
            | Inr t \<Rightarrow> Inr (g1\<lparr>total_activated_stake := t\<rparr>))
         else Inr g1)
      else Inr g)"

text \<open>
  \<^verbatim>\<open>producer_deltas\<close> is a flat map: sorted by key, and \<^verbatim>\<open>operator[]\<close> inserts
  \<open>(0, false)\<close> for a key that is not there.
\<close>

type_synonym deltas = "(account_name \<times> double \<times> bool) list"

fun delta_upd ::
  "account_name \<Rightarrow> (double \<times> bool \<Rightarrow> double \<times> bool) \<Rightarrow> deltas \<Rightarrow> deltas" where
  "delta_upd k f [] = [(k, f (Finite 0, False))]"
| "delta_upd k f ((k', d) # ds) =
     (if k = k' then (k', f d) # ds
      else if k < k' then (k, f (Finite 0, False)) # (k', d) # ds
      else (k', d) # delta_upd k f ds)"

definition lift_state ::
  "deltas \<Rightarrow> (error + state) option \<Rightarrow> (error + state \<times> deltas) option" where
  "lift_state ds r =
     Option.bind r (\<lambda>x. case x of Inl e \<Rightarrow> Some (Inl e) | Inr st \<Rightarrow> Some (Inr (st, ds)))"

text \<open>Lines 210 to 229. Nothing has been written to the voters table before, so
  \<open>voter\<close> is the row as \<^verbatim>\<open>find\<close> answered it.\<close>

definition remove_old_vote :: "state \<Rightarrow> voter_info \<Rightarrow> (error + state \<times> deltas) option" where
  "remove_old_vote st voter =
     (if dlt (Finite 0) (last_vote_weight voter) then
        (if proxy voter \<noteq> 0 then
           (case voters_tbl st (proxy voter) of
              None \<Rightarrow> Some (Inl (Assert ''old proxy not found''))
            | Some old_proxy \<Rightarrow>
                lift_state []
                  (propagate_weight_change
                     (st\<lparr>voters_tbl := (voters_tbl st)
                           (proxy voter \<mapsto>
                              old_proxy\<lparr>proxied_vote_weight :=
                                 dsub (proxied_vote_weight old_proxy) (last_vote_weight voter)\<rparr>)\<rparr>)
                     (proxy voter)))
         else
           Some (Inr (st, foldl (\<lambda>ds p. delta_upd p
                                    (\<lambda>d. (dsub (fst d) (last_vote_weight voter), False)) ds)
                            [] (producers voter))))
      else Some (Inr (st, [])))"

text \<open>Lines 231 to 273. The voter's row is read again from the table where the source
  reads through the iterator after a write.\<close>

definition apply_new_choice ::
  "state \<Rightarrow> deltas \<Rightarrow> account_name \<Rightarrow> account_name \<Rightarrow> account_name list \<Rightarrow> bool \<Rightarrow> double \<Rightarrow>
     (error + state \<times> deltas) option" where
  "apply_new_choice st ds voter_name pxy prods voting new_vote_weight =
     (case voters_tbl st voter_name of
        None \<Rightarrow> Some (Inl (Undefined ''dangling voter reference''))
      | Some voter \<Rightarrow>
          if pxy \<noteq> 0 then
            (case voters_tbl st pxy of
               None \<Rightarrow> Some (Inl (Assert ''invalid proxy specified''))
             | Some new_proxy \<Rightarrow>
                 if \<not> (\<not> voting \<or> is_proxy new_proxy) then Some (Inl (Assert ''proxy not found''))
                 else
                   let np = new_proxy\<lparr>proxied_vote_weight :=
                              (if voting
                               then dadd (proxied_vote_weight new_proxy) (of_int64 (staked voter))
                               else of_int64 (staked voter))\<rparr>;
                       st1 = st\<lparr>voters_tbl := (voters_tbl st)(pxy \<mapsto> np)\<rparr>
                   in if dlt (Finite 0) (last_vote_weight np)
                      then lift_state ds (propagate_weight_change st1 pxy)
                      else Some (Inr (st1, ds)))
          else if dle (Finite 0) new_vote_weight then
            Option.bind
              (if proxy voter \<noteq> 0 then
                 (case voters_tbl st (proxy voter) of
                    None \<Rightarrow> Some (Inl (Assert ''old proxy not found''))
                  | Some old_proxy \<Rightarrow>
                      propagate_weight_change
                        (st\<lparr>voters_tbl := (voters_tbl st)
                              (proxy voter \<mapsto>
                                 old_proxy\<lparr>proxied_vote_weight :=
                                    dsub (proxied_vote_weight old_proxy)
                                         (of_int64 (staked voter))\<rparr>)\<rparr>)
                        (proxy voter))
               else Some (Inr st))
              (\<lambda>r. case r of
                      Inl e \<Rightarrow> Some (Inl e)
                    | Inr st1 \<Rightarrow>
                        if voting then
                          Some (Inr (st1, foldl (\<lambda>ds p. delta_upd p
                                                  (\<lambda>d. (dadd (fst d) new_vote_weight, True)) ds)
                                            ds prods))
                        else
                          (case voters_tbl st1 voter_name of
                             None \<Rightarrow> Some (Inl (Undefined ''dangling voter reference''))
                           | Some voter1 \<Rightarrow>
                               if dlt (Finite 0) (last_vote_weight voter1)
                               then lift_state ds (propagate_weight_change st1 voter_name)
                               else Some (Inr (st1, ds))))
          else Some (Inr (st, ds)))"

text \<open>Lines 275 to 290: the deltas are applied in key order.\<close>

definition add_votes :: "double \<Rightarrow> producer_info \<Rightarrow> producer_info" where
  "add_votes w p =
     (let p1 = p\<lparr>total_votes := dadd (total_votes p) w\<rparr>
      in if dlt (total_votes p1) (Finite 0) then p1\<lparr>total_votes := Finite 0\<rparr> else p1)"

fun apply_deltas ::
  "bool \<Rightarrow> deltas \<Rightarrow> producer_info list \<times> eosio_global_state \<Rightarrow>
     error + producer_info list \<times> eosio_global_state" where
  "apply_deltas voting [] pg = Inr pg"
| "apply_deltas voting ((name, w, new) # rest) (ps, g) =
     (case find_producer ps name of
        Some pitr \<Rightarrow>
          if \<not> (\<not> voting \<or> active pitr \<or> \<not> new)
          then Inl (Assert ''producer is not currently registered'')
          else apply_deltas voting rest
                 (modify_producer name (add_votes w) ps,
                  g\<lparr>total_producer_vote_weight := dadd (total_producer_vote_weight g) w\<rparr>)
      | None \<Rightarrow>
          if new then Inl (Assert ''producer is not registered'')
          else apply_deltas voting rest (ps, g))"

definition update_votes ::
  "int \<Rightarrow> 64 word \<Rightarrow> state \<Rightarrow> account_name \<Rightarrow> account_name \<Rightarrow> account_name list \<Rightarrow> bool \<Rightarrow>
     (error + state) option" where
  "update_votes min_activated_stake now st voter_name pxy prods voting =
     (case validate_input voter_name pxy prods of
        Some e \<Rightarrow> Some (Inl e)
      | None \<Rightarrow>
     (case voters_tbl st voter_name of
        None \<Rightarrow> Some (Inl (Assert ''user must stake before they can vote''))
      | Some voter \<Rightarrow>
     if \<not> (pxy = 0 \<or> \<not> is_proxy voter)
     then Some (Inl (Assert ''account registered as a proxy is not allowed to use a proxy''))
     else
     (case total_staked st voter pxy of
        Inl e \<Rightarrow> Some (Inl e)
      | Inr totalStaked \<Rightarrow>
     let new_vote_weight =
           inverseVoteWeight (producers_tbl st) (sint totalStaked) (real (length prods))
             VOTE_VARIATION
     in
     (case activate_stake min_activated_stake now st voter pxy prods voting of
        Inl e \<Rightarrow> Some (Inl e)
      | Inr g1 \<Rightarrow>
     Option.bind (remove_old_vote (st\<lparr>gstate := g1\<rparr>) voter)
       (\<lambda>r1. case r1 of
          Inl e \<Rightarrow> Some (Inl e)
        | Inr (st2, ds2) \<Rightarrow>
     Option.bind (apply_new_choice st2 ds2 voter_name pxy prods voting new_vote_weight)
       (\<lambda>r2. case r2 of
          Inl e \<Rightarrow> Some (Inl e)
        | Inr (st3, ds3) \<Rightarrow>
     (case apply_deltas voting ds3 (producers_tbl st3, gstate st3) of
        Inl e \<Rightarrow> Some (Inl e)
      | Inr (ps4, g4) \<Rightarrow>
          Some (Inr (modify_voter voter_name
                       (\<lambda>av. av\<lparr>last_vote_weight := new_vote_weight,
                                 producers := prods, proxy := pxy\<rparr>)
                       (st3\<lparr>producers_tbl := ps4, gstate := g4\<rparr>))))))))))"

text \<open>\<^verbatim>\<open>require_auth\<close> is the parameter \<open>auth\<close>: whether the caller may act for the
  account.\<close>

definition voteproducer ::
  "(account_name \<Rightarrow> bool) \<Rightarrow> int \<Rightarrow> 64 word \<Rightarrow> state \<Rightarrow> account_name \<Rightarrow> account_name \<Rightarrow>
     account_name list \<Rightarrow> (error + state) option" where
  "voteproducer auth min_activated_stake now st voter_name pxy prods =
     (if \<not> auth voter_name then Some (Inl (MissingAuth voter_name))
      else update_votes min_activated_stake now st voter_name pxy prods True)"

section \<open>Registration\<close>




section \<open>The specification's wording, and example states\<close>

text \<open>What the specification says of the election loop and of the vote weight, written
  down next to the code's functions so that the two can be compared.\<close>

definition qualifies :: "producer_info \<Rightarrow> bool" where
  "qualifies it = (dlt (Finite 0) (total_votes it) \<and> is_active it)"

definition schedule_entry :: "producer_info \<Rightarrow> producer_key \<times> 16 word" where
  "schedule_entry it = ((producer_info.owner it, producer_key it), location it)"

text \<open>Specification 4.4: "collect the first 21 entries with \<open>total_votes > 0\<close> and
  \<open>is_active == true\<close>", an entry that fails a test being skipped.\<close>

definition first_21_qualifying_spec :: "producer_info list \<Rightarrow> (producer_key \<times> 16 word) list" where
  "first_21_qualifying_spec idx = map schedule_entry (take 21 (filter qualifies idx))"

text \<open>Modelled from the spec: the order of the index \<^verbatim>\<open>prototalvote\<close>, whose key
  function is declared outside \<^verbatim>\<open>voting.cpp\<close>: "ordered by \<open>total_votes\<close> descending".\<close>

definition ordered_by_total_votes_desc :: "producer_info list \<Rightarrow> bool" where
  "ordered_by_total_votes_desc idx = sorted_wrt (\<lambda>a b. dle (total_votes b) (total_votes a)) idx"

text \<open>Specification 4.1: the weight with the number of active producers, capped at 30, as
  the denominator.\<close>

definition computeWeight_spec :: "producer_info list \<Rightarrow> int \<Rightarrow> real \<Rightarrow> real \<Rightarrow> real" where
  "computeWeight_spec ps stk slateSize variation =
     (let producerCount = min (real (length (filter is_active ps))) 30;
          fraction = slateSize / producerCount
      in ((1 - variation) * sin (pi / 2 * fraction) + variation) * real_of_int stk)"

definition mk_producer :: "account_name \<Rightarrow> double \<Rightarrow> bool \<Rightarrow> producer_info" where
  "mk_producer n tv a =
     \<lparr>owner = n, total_votes = tv, producer_key = (0, replicate 33 1),
      is_active = a, url = [], location = 0\<rparr>"

definition one_active_of_three :: "producer_info list" where
  "one_active_of_three =
     [mk_producer 1 (Finite 0) True, mk_producer 2 (Finite 0) False,
      mk_producer 3 (Finite 0) False]"

definition inactive_leader :: "producer_info list" where
  "inactive_leader = [mk_producer 1 (Finite 10) False, mk_producer 2 (Finite 5) True]"

text \<open>Two answers of the slate-acceptance intrinsic.\<close>

definition accept_all :: "producer_key list \<Rightarrow> int" where
  "accept_all s = 0"

definition reject_all :: "producer_key list \<Rightarrow> int" where
  "reject_all s = - 1"

definition genesis :: eosio_global_state where
  "genesis = \<lparr>last_producer_schedule_update = 0, total_activated_stake = 0,
     thresh_activated_stake_time = 0, last_producer_schedule_size = 0,
     total_producer_vote_weight = Finite 0\<rparr>"

definition mk_voter ::
  "account_name \<Rightarrow> account_name \<Rightarrow> account_name list \<Rightarrow> int64 \<Rightarrow> double \<Rightarrow> double \<Rightarrow> bool \<Rightarrow>
     voter_info" where
  "mk_voter n p ps s lvw pvw ip =
     \<lparr>voter_info.owner = n, proxy = p, producers = ps, staked = s, last_vote_weight = lvw,
      proxied_vote_weight = pvw, is_proxy = ip\<rparr>"

definition any_auth :: "account_name \<Rightarrow> bool" where
  "any_auth a = True"

subsection \<open>The contract's actions\<close>

text \<open>
  The functions of \<^verbatim>\<open>voting.cpp\<close> as the actions of one state machine. What the
  functions take from their environment is gathered in \<open>env\<close>. A failed assertion
  aborts the transaction, so an action that answers an error leaves the state as it was,
  and the next action starts from there.
\<close>

record env =
  auth :: "account_name \<Rightarrow> bool"
  min_activated_stake :: int
  current_time :: "64 word"
  set_proposed_producers :: "producer_key list \<Rightarrow> int"
  prototalvote :: "producer_info list \<Rightarrow> producer_info list"




subsection \<open>Proxy chains\<close>

text \<open>\<open>proxy_chain_ends n vs vn\<close>: following the \<open>proxy\<close> fields from \<open>vn\<close>, at most
  \<open>n\<close> hops lead to a row on which \<^verbatim>\<open>propagate_weight_change\<close> does not recurse: a row
  without a proxy, a row that is a proxy itself (the assertion fails there) or a missing
  row.\<close>

primrec proxy_chain_ends ::
  "nat \<Rightarrow> (account_name \<rightharpoonup> voter_info) \<Rightarrow> account_name \<Rightarrow> bool" where
  "proxy_chain_ends 0 vs vn =
     (case vs vn of None \<Rightarrow> True | Some v \<Rightarrow> proxy v = 0 \<or> is_proxy v)"
| "proxy_chain_ends (Suc n) vs vn =
     (case vs vn of
        None \<Rightarrow> True
      | Some v \<Rightarrow> proxy v = 0 \<or> is_proxy v \<or> proxy_chain_ends n vs (proxy v))"

text \<open>Accounts 1 and 2 name each other as proxy and neither is registered as one.\<close>

definition proxy_cycle :: state where
  "proxy_cycle =
     \<lparr>voters_tbl = [1 \<mapsto> mk_voter 1 2 [] 10 (Finite 0) (Finite 0) False,
                    2 \<mapsto> mk_voter 2 1 [] 10 (Finite 0) (Finite 0) False],
      producers_tbl = [], gstate = genesis\<rparr>"

text \<open>The states that the propagation passes through on \<open>proxy_cycle\<close>: the two rows
  keep their stake of 10, name each other, and carry a proxied weight of 0 or 10.\<close>

definition in_cycle :: "state \<Rightarrow> account_name \<Rightarrow> bool" where
  "in_cycle st vn \<longleftrightarrow>
     (vn = 1 \<or> vn = 2) \<and>
     (\<exists>a b. voters_tbl st 1 = Some a \<and> voters_tbl st 2 = Some b \<and>
        proxy a = 2 \<and> proxy b = 1 \<and> \<not> is_proxy a \<and> \<not> is_proxy b \<and>
        staked a = 10 \<and> staked b = 10 \<and>
        (proxied_vote_weight a = Finite 0 \<or> proxied_vote_weight a = Finite 10) \<and>
        (proxied_vote_weight b = Finite 0 \<or> proxied_vote_weight b = Finite 10))"

text \<open>Account 1 delegates to the registered proxy 2.\<close>

definition delegating :: state where
  "delegating =
     \<lparr>voters_tbl = [1 \<mapsto> mk_voter 1 2 [] 10 (Finite 0) (Finite 0) False,
                    2 \<mapsto> mk_voter 2 0 [] 10 (Finite 0) (Finite 10) True],
      producers_tbl = [], gstate = genesis\<rparr>"

subsection \<open>Withdrawing a vote\<close>



text \<open>Account 5 has staked 100 and has never voted; producer 1 is registered.\<close>

definition fresh_voter :: state where
  "fresh_voter =
     \<lparr>voters_tbl = [5 \<mapsto> mk_voter 5 0 [] 100 (Finite 0) (Finite 0) False],
      producers_tbl = [mk_producer 1 (Finite 0) True], gstate = genesis\<rparr>"



text \<open>The same, with producer 1 deactivated.\<close>

definition one_inactive_producer :: state where
  "one_inactive_producer =
     \<lparr>voters_tbl = [5 \<mapsto> mk_voter 5 0 [] 100 (Finite 0) (Finite 0) False],
      producers_tbl = [mk_producer 1 (Finite 0) False], gstate = genesis\<rparr>"



subsection \<open>Switching from direct votes to a proxy\<close>



definition overwritten ::
  "bool \<Rightarrow> account_name list \<Rightarrow> double \<Rightarrow> producer_info \<Rightarrow> producer_info" where
  "overwritten voted slate w x =
     (if voted \<and> producer_info.owner x \<in> set slate then x\<lparr>total_votes := w\<rparr> else x)"





section \<open>Rounding and conversions\<close>

lemma round_half_even_of_int [simp]: "round_half_even (of_int m) = m"
  by (simp add: round_half_even_def)

text \<open>An integer of at most 53 bits is a double.\<close>

lemma round_double_of_int:
  assumes "\<bar>k\<bar> \<le> 2 ^ 53"
  shows "round_double (of_int k) = of_int k"
proof (cases "k = 0")
  case True
  then show ?thesis by (simp add: round_double_def)
next
  case False
  define a :: real where "a = \<bar>of_int k\<bar>"
  define e where "e = \<lfloor>log 2 a\<rfloor>"
  have ak: "a = of_int \<bar>k\<bar>" by (simp add: a_def)
  have "1 \<le> \<bar>k\<bar>" using False by simp
  then have a1: "1 \<le> a" unfolding ak by simp
  have "(of_int \<bar>k\<bar> :: real) \<le> of_int (2 ^ 53)" using assms by (simp only: of_int_le_iff)
  then have a53: "a \<le> 2 ^ 53" unfolding ak by simp
  have e0: "0 \<le> e" unfolding e_def using a1 by simp
  have l53: "log 2 ((2::real) ^ 53) = real 53"
    by (rule log_pow_cancel) simp_all
  have "log 2 a \<le> log 2 (2 ^ 53)" using a1 a53 by (subst log_le_cancel_iff) auto
  then have "log 2 a \<le> 53" unfolding l53 by simp
  then have e53: "e \<le> 53" unfolding e_def by linarith
  have rd: "round_double (of_int k)
              = 2 powi (e - 52) * of_int (round_half_even (of_int k / 2 powi (e - 52)))"
    using False unfolding round_double_def e_def a_def by (simp add: Let_def)
  show ?thesis
  proof (cases "e \<le> 52")
    case True
    define j where "j = nat (52 - e)"
    have u: "(2::real) powi (e - 52) = 1 / 2 ^ j"
      using True unfolding j_def by (simp add: power_int_def field_simps)
    have q: "of_int k / (2::real) powi (e - 52) = of_int (k * 2 ^ j)"
      unfolding u by simp
    show ?thesis unfolding rd q round_half_even_of_int unfolding u by simp
  next
    case False
    then have e: "e = 53" using e53 by simp
    then have "53 \<le> log 2 a" unfolding e_def by linarith
    then have "2 powr 53 \<le> a" using a1 by (simp add: le_log_iff)
    then have "a = 2 ^ 53" using a53 by simp
    then have "(of_int \<bar>k\<bar> :: real) = of_int (2 ^ 53)" unfolding ak by simp
    then have "\<bar>k\<bar> = 2 ^ 53" by (simp only: of_int_eq_iff)
    then have k: "k = 2 ^ 53 \<or> k = - (2 ^ 53)" by linarith
    have u: "(2::real) powi (e - 52) = 2" unfolding e by simp
    from k have q: "of_int k / (2::real) = of_int (k div 2)"
      by auto
    show ?thesis unfolding rd u q round_half_even_of_int using k by auto
  qed
qed

lemma round_double_0 [simp]: "round_double 0 = 0"
  by (simp add: round_double_def)

lemma round_double_numeral:
  "(numeral n :: int) \<le> 2 ^ 53 \<Longrightarrow> round_double (numeral n) = numeral n"
  using round_double_of_int [of "numeral n"] by simp

lemma round_double_neg_numeral:
  "(numeral n :: int) \<le> 2 ^ 53 \<Longrightarrow> round_double (- numeral n) = - numeral n"
  using round_double_of_int [of "- numeral n"] by simp

lemma round_double_1 [simp]: "round_double 1 = 1"
  using round_double_of_int [of 1] by simp

lemma of_int64_exact:
  "\<bar>sint i\<bar> \<le> 2 ^ 53 \<Longrightarrow> of_int64 i = Finite (real_of_int (sint i))"
  using round_double_of_int [of "sint i"] by (simp add: of_int64_def)

lemmas round_small = round_double_numeral round_double_neg_numeral

section \<open>The election loop\<close>

lemma top_producers_loop_prefix:
  "top_producers_loop idx tops =
     tops @ map schedule_entry (take (21 - length tops) (takeWhile qualifies idx))"
proof (induction idx arbitrary: tops)
  case Nil
  then show ?case by simp
next
  case (Cons it rest)
  show ?case
  proof (cases "length tops < 21")
    case True
    then obtain k where k: "21 - length tops = Suc k"
      by (cases "21 - length tops") auto
    then have "21 - Suc (length tops) = k" by simp
    with True k show ?thesis
      by (simp add: Cons.IH qualifies_def active_def schedule_entry_def)
  next
    case False
    then show ?thesis by simp
  qed
qed

text \<open>
  Claim C2, as amended. The election loop collects the leading run of the index: the rows
  before the first one that has no votes or is inactive, and at most 21 of them. A row
  that fails a test ends the collection; it is not skipped.
\<close>

theorem top_producers_leading_run:
  "top_producers_loop idx [] = map schedule_entry (take 21 (takeWhile qualifies idx))"
  by (simp add: top_producers_loop_prefix)

text \<open>On an index ordered by votes, descending, whose first row is inactive, the loop
  collects nothing, while the specification's wording selects the active second row.\<close>

theorem top_producers_skip_counterexample:
  "ordered_by_total_votes_desc inactive_leader \<and>
   top_producers_loop inactive_leader [] = [] \<and>
   first_21_qualifying_spec inactive_leader = [((2, (0, replicate 33 1)), 0)]"
  by (simp add: ordered_by_total_votes_desc_def inactive_leader_def mk_producer_def
        first_21_qualifying_spec_def qualifies_def schedule_entry_def active_def)

text \<open>On an index that lists no qualifying row after a row that does not qualify, the
  leading run is the specification's selection.\<close>

lemma leading_run_is_selection:
  assumes "\<forall>x \<in> set good. qualifies x" and "\<forall>x \<in> set others. \<not> qualifies x"
  shows "top_producers_loop (good @ others) [] = first_21_qualifying_spec (good @ others)"
proof -
  have "takeWhile qualifies (good @ others) = good"
    using assms by (cases others) (simp_all add: takeWhile_append2)
  moreover have "filter qualifies (good @ others) = good"
    using assms by simp
  ultimately show ?thesis
    by (simp add: top_producers_loop_prefix first_21_qualifying_spec_def)
qed

section \<open>The vote weight\<close>

text \<open>
  Claim C3, as amended. For a non-zero slate size and a producers table that is not empty,
  the weight is \<open>((1 - variation) * sin (pi/2 * slateSize / producerCount) + variation) * stake\<close>
  where \<open>producerCount\<close> is the number of rows of the producers table, active or not,
  capped at 30.
\<close>

theorem inverseVoteWeight_formula:
  assumes "slateSize \<noteq> 0" and "ps \<noteq> []"
  shows "inverseVoteWeight ps stk slateSize variation =
           Finite (((1 - variation) * sin (pi / 2 * (slateSize / min (real (length ps)) 30))
                      + variation) * real_of_int stk)"
  using assms by (simp add: inverseVoteWeight_def Let_def min_def)

theorem inverseVoteWeight_formula_witness:
  "(1::real) \<noteq> 0 \<and> one_active_of_three \<noteq> [] \<and>
   inverseVoteWeight one_active_of_three 20 1 VOTE_VARIATION = Finite 11"
  using inverseVoteWeight_formula [of 1 one_active_of_three 20 VOTE_VARIATION]
  by (simp add: one_active_of_three_def VOTE_VARIATION_def sin_30)

text \<open>With one active producer among three registered ones, a slate of one weighs
  \<open>(0.9 * sin (pi/6) + 0.1) * 20 = 11\<close>; with the active count as denominator it would
  weigh 20.\<close>

theorem inverseVoteWeight_active_counterexample:
  "inverseVoteWeight one_active_of_three 20 1 VOTE_VARIATION = Finite 11 \<and>
   computeWeight_spec one_active_of_three 20 1 VOTE_VARIATION = 20"
  by (simp add: inverseVoteWeight_def computeWeight_spec_def one_active_of_three_def
        mk_producer_def VOTE_VARIATION_def sin_30)

text \<open>
  Claim C9, as amended. For a stake that is not negative and a variation between 0 and 1,
  the weight does not decrease when the slate grows, as long as the slate is no larger than
  the number of registered producers capped at 30. The quotient is not clamped.
\<close>

theorem inverseVoteWeight_monotone:
  assumes "0 \<le> stk" and "0 \<le> variation" and "variation \<le> 1"
    and "m \<le> n" and "real n \<le> min (real (length ps)) 30"
  shows "dle (inverseVoteWeight ps stk (real m) variation)
             (inverseVoteWeight ps stk (real n) variation)"
proof (cases "n = 0")
  case True
  with assms show ?thesis by (simp add: inverseVoteWeight_def)
next
  case False
  define c where "c = min (real (length ps)) 30"
  have c_pos: "0 < c" using assms(5) False unfolding c_def by linarith
  have tot: "(if real (length ps) > 30 then 30 else real (length ps)) = c"
    unfolding c_def by (simp add: min_def)
  have frac_n: "real n / c \<le> 1" using assms(5) c_pos unfolding c_def by simp
  have frac_m: "real m / c \<le> real n / c" using assms(4) c_pos by (simp add: divide_right_mono)
  have m0: "0 \<le> real m / c" using c_pos by simp
  have up: "pi / 2 * (real n / c) \<le> pi / 2"
    using frac_n mult_left_mono [of "real n / c" 1 "pi / 2"] by simp
  have lo: "0 \<le> pi / 2 * (real m / c)"
    using m0 pi_ge_zero by (intro mult_nonneg_nonneg) simp_all
  have mid: "pi / 2 * (real m / c) \<le> pi / 2 * (real n / c)"
    using frac_m pi_ge_zero by (intro mult_left_mono) simp_all
  have sin_le: "sin (pi / 2 * (real m / c)) \<le> sin (pi / 2 * (real n / c))"
    by (rule sin_monotone_2pi_le) (use lo mid up in linarith)+
  have sin_n0: "0 \<le> sin (pi / 2 * (real n / c))"
    by (rule sin_ge_zero) (use lo mid up pi_gt_zero in linarith)+
  have k0: "0 \<le> 1 - variation" using assms(3) by simp
  have stk0: "0 \<le> real_of_int stk" using assms(1) by simp
  show ?thesis
  proof (cases "m = 0")
    case True
    have "0 \<le> ((1 - variation) * sin (pi / 2 * (real n / c)) + variation) * real_of_int stk"
      using k0 sin_n0 assms(2) stk0 by simp
    with True False c_pos tot show ?thesis
      by (simp add: inverseVoteWeight_def Let_def)
  next
    case mnz: False
    have "(1 - variation) * sin (pi / 2 * (real m / c))
            \<le> (1 - variation) * sin (pi / 2 * (real n / c))"
      using sin_le k0 by (rule mult_left_mono)
    then have "((1 - variation) * sin (pi / 2 * (real m / c)) + variation) * real_of_int stk
             \<le> ((1 - variation) * sin (pi / 2 * (real n / c)) + variation) * real_of_int stk"
      using stk0 by (simp add: mult_right_mono)
    with mnz False c_pos tot show ?thesis
      by (simp add: inverseVoteWeight_def Let_def)
  qed
qed

theorem inverseVoteWeight_monotone_witness:
  "(0::int) \<le> 10 \<and> (0::real) \<le> VOTE_VARIATION \<and> VOTE_VARIATION \<le> 1 \<and> (1::nat) \<le> 3
   \<and> real (3::nat) \<le> min (real (length one_active_of_three)) 30
   \<and> dle (inverseVoteWeight one_active_of_three 10 (real (1::nat)) VOTE_VARIATION)
          (inverseVoteWeight one_active_of_three 10 (real (3::nat)) VOTE_VARIATION)"
  using inverseVoteWeight_monotone [of 10 VOTE_VARIATION 1 3 one_active_of_three]
  by (simp add: one_active_of_three_def VOTE_VARIATION_def)

text \<open>With one registered producer, a slate of one weighs the whole stake and a slate of
  two weighs a tenth of it: \<open>sin pi = 0\<close>.\<close>

theorem inverseVoteWeight_clamp_counterexample:
  "\<not> dle (inverseVoteWeight [mk_producer 1 (Finite 0) True] 10 1 VOTE_VARIATION)
          (inverseVoteWeight [mk_producer 1 (Finite 0) True] 10 2 VOTE_VARIATION)"
  by (simp add: inverseVoteWeight_def VOTE_VARIATION_def)

section \<open>Bookkeeping of the schedule\<close>

text \<open>
  Claim C5, as amended. The time of the last schedule update is set to the block time on
  every call. On the early return (fewer candidates than the last schedule size) and when
  the proposed schedule is rejected, nothing else changes; the early return is taken
  exactly when fewer rows were collected than the last schedule size.
\<close>

theorem schedule_bookkeeping:
  "last_producer_schedule_update (fst (update_elected_producers spp idx t g)) = t \<and>
   ((snd (update_elected_producers spp idx t g) = None
      \<or> (\<exists>s. snd (update_elected_producers spp idx t g) = Some s \<and> spp s < 0))
     \<longrightarrow> fst (update_elected_producers spp idx t g) = g\<lparr>last_producer_schedule_update := t\<rparr>) \<and>
   (snd (update_elected_producers spp idx t g) = None
      \<longleftrightarrow> length (top_producers_loop idx []) < unat (last_producer_schedule_size g))"
  by (auto simp: update_elected_producers_def Let_def)

theorem schedule_bookkeeping_witness:
  "snd (update_elected_producers accept_all [] 7 (genesis\<lparr>last_producer_schedule_size := 1\<rparr>)) = None \<and>
   fst (update_elected_producers accept_all [] 7 (genesis\<lparr>last_producer_schedule_size := 1\<rparr>))
     = genesis\<lparr>last_producer_schedule_size := 1, last_producer_schedule_update := 7\<rparr> \<and>
   snd (update_elected_producers reject_all [] 7 genesis) = Some [] \<and> reject_all [] < 0 \<and>
   fst (update_elected_producers reject_all [] 7 genesis)
     = genesis\<lparr>last_producer_schedule_update := 7\<rparr>"
  using schedule_bookkeeping [of accept_all "[]" 7 "genesis\<lparr>last_producer_schedule_size := 1\<rparr>"]
    schedule_bookkeeping [of reject_all "[]" 7 genesis]
  by (simp add: update_elected_producers_def genesis_def sort_top_def accept_all_def
        reject_all_def)

text \<open>On the early return and on a rejection the time of the last update has changed.\<close>

theorem schedule_update_counterexample:
  "snd (update_elected_producers accept_all [] 7 (genesis\<lparr>last_producer_schedule_size := 1\<rparr>)) = None \<and>
   last_producer_schedule_update
     (fst (update_elected_producers accept_all [] 7 (genesis\<lparr>last_producer_schedule_size := 1\<rparr>)))
     \<noteq> last_producer_schedule_update (genesis\<lparr>last_producer_schedule_size := 1\<rparr>) \<and>
   reject_all [] < 0 \<and>
   last_producer_schedule_update (fst (update_elected_producers reject_all [] 7 genesis))
     \<noteq> last_producer_schedule_update genesis"
  by (simp add: update_elected_producers_def genesis_def sort_top_def accept_all_def
        reject_all_def)

section \<open>Propagation and the global record\<close>

lemmas propagate_induct =
  propagate_weight_change.raw_induct [rotated 1, consumes 1, case_names step]

lemma modify_voter_gstate [simp]: "gstate (modify_voter n f st) = gstate st"
  by (simp add: modify_voter_def split: option.splits)

lemma modify_voter_producers [simp]: "producers_tbl (modify_voter n f st) = producers_tbl st"
  by (simp add: modify_voter_def split: option.splits)










section \<open>Termination of the propagation\<close>

lemma of_int64_ten: "of_int64 10 = Finite 10"
  by (simp add: of_int64_def round_small)

lemma cycle_sum:
  "d = Finite 0 \<or> d = Finite 10 \<Longrightarrow> \<exists>t. to_int64 (dadd (of_int64 10) d) = Some t"
  by (auto simp: of_int64_ten round_small trunc_def)

lemma in_cycle_step:
  assumes "in_cycle st vn"
  obtains v px t where "voters_tbl st vn = Some v" and "voters_tbl st (proxy v) = Some px"
    and "proxy v \<noteq> 0" and "\<not> is_proxy v"
    and "to_int64 (dadd (of_int64 (staked v)) (proxied_vote_weight v)) = Some t"
    and "in_cycle (st\<lparr>voters_tbl := (voters_tbl st)
                        (proxy v \<mapsto> px\<lparr>proxied_vote_weight := of_int64 (staked px)\<rparr>)\<rparr>)
                  (proxy v)"
proof -
  from assms obtain a b where ab: "voters_tbl st 1 = Some a" "voters_tbl st 2 = Some b"
    "proxy a = 2" "proxy b = 1" "\<not> is_proxy a" "\<not> is_proxy b"
    "staked a = 10" "staked b = 10"
    "proxied_vote_weight a = Finite 0 \<or> proxied_vote_weight a = Finite 10"
    "proxied_vote_weight b = Finite 0 \<or> proxied_vote_weight b = Finite 10"
    and vn: "vn = 1 \<or> vn = 2"
    unfolding in_cycle_def by blast
  obtain ta tb where t: "to_int64 (dadd (of_int64 (staked a)) (proxied_vote_weight a)) = Some ta"
    "to_int64 (dadd (of_int64 (staked b)) (proxied_vote_weight b)) = Some tb"
    using cycle_sum [OF ab(9)] cycle_sum [OF ab(10)] ab(7,8) by auto
  from vn show thesis
  proof
    assume "vn = 1"
    with ab t(1) show thesis
      by (intro that [of a b ta]) (auto simp: in_cycle_def of_int64_ten)
  next
    assume "vn = 2"
    with ab t(2) show thesis
      by (intro that [of b a tb]) (auto simp: in_cycle_def of_int64_ten)
  qed
qed

lemma in_cycle_never_returns:
  "propagate_weight_change st vn = Some r \<Longrightarrow> \<not> in_cycle st vn"
proof (induction rule: propagate_induct)
  case (step f st vn r)
  show ?case
  proof
    assume "in_cycle st vn"
    then obtain v px t where v: "voters_tbl st vn = Some v"
      and px: "voters_tbl st (proxy v) = Some px"
      and nz: "proxy v \<noteq> 0" and np: "\<not> is_proxy v"
      and t: "to_int64 (dadd (of_int64 (staked v)) (proxied_vote_weight v)) = Some t"
      and nxt: "in_cycle (st\<lparr>voters_tbl := (voters_tbl st)
                        (proxy v \<mapsto> px\<lparr>proxied_vote_weight := of_int64 (staked px)\<rparr>)\<rparr>)
                  (proxy v)"
      by (rule in_cycle_step)
    from step.hyps v px nz np t obtain r' where
      "f (st\<lparr>voters_tbl := (voters_tbl st)
               (proxy v \<mapsto> px\<lparr>proxied_vote_weight := of_int64 (staked px)\<rparr>)\<rparr>) (proxy v) = Some r'"
      by (auto simp: Let_def split: Option.bind_splits)
    then show False using step.IH nxt by blast
  qed
qed

lemma proxy_chain_ends_weight:
  assumes "vs k = Some px"
  shows "proxy_chain_ends n (vs(k \<mapsto> px\<lparr>proxied_vote_weight := w\<rparr>)) vn
           = proxy_chain_ends n vs vn"
  using assms by (induction n arbitrary: vn) (auto split: option.splits)

lemma propagate_leaf:
  assumes "voters_tbl st vn = None
           \<or> (\<exists>v. voters_tbl st vn = Some v \<and> (proxy v = 0 \<or> is_proxy v))"
  shows "\<exists>r. propagate_weight_change st vn = Some r"
  using assms
  by (subst propagate_weight_change.simps)
     (auto simp: Let_def split: option.splits sum.splits)

text \<open>
  Claim C6, as amended. \<^verbatim>\<open>propagate_weight_change\<close> returns (a new state or an error)
  on every state in which the chain of \<open>proxy\<close> fields that starts at the voter ends
  after finitely many hops. The recursion carries no depth bound.
\<close>

theorem propagate_returns:
  "proxy_chain_ends n (voters_tbl st) vn \<Longrightarrow> propagate_weight_change st vn \<noteq> None"
proof (induction n arbitrary: st vn)
  case 0
  then have "\<exists>r. propagate_weight_change st vn = Some r"
    by (intro propagate_leaf) (auto split: option.splits)
  then show ?case by auto
next
  case (Suc n)
  have "\<exists>r. propagate_weight_change st vn = Some r"
  proof (cases "voters_tbl st vn")
    case None
    then show ?thesis by (intro propagate_leaf) simp
  next
    case (Some v)
    show ?thesis
    proof (cases "proxy v = 0 \<or> is_proxy v")
      case True
      with Some show ?thesis by (intro propagate_leaf) simp
    next
      case False
      with Some Suc.prems have rest: "proxy_chain_ends n (voters_tbl st) (proxy v)" by simp
      show ?thesis
      proof (cases "voters_tbl st (proxy v)")
        case None
        with Some False show ?thesis
          by (subst propagate_weight_change.simps) (auto simp: Let_def split: option.splits)
      next
        case px: (Some px)
        let ?st1 = "st\<lparr>voters_tbl := (voters_tbl st)
                        (proxy v \<mapsto> px\<lparr>proxied_vote_weight := of_int64 (staked px)\<rparr>)\<rparr>"
        have "proxy_chain_ends n (voters_tbl ?st1) (proxy v)"
          using rest px by (simp add: proxy_chain_ends_weight)
        then obtain r' where r': "propagate_weight_change ?st1 (proxy v) = Some r'"
          using Suc.IH by blast
        with Some False px show ?thesis
          by (subst propagate_weight_change.simps)
             (auto simp: Let_def split: option.splits sum.splits)
      qed
    qed
  qed
  then show ?case by auto
qed

theorem propagate_returns_witness:
  "proxy_chain_ends 1 (voters_tbl delegating) 1 \<and> propagate_weight_change delegating 1 \<noteq> None"
proof -
  have h: "proxy_chain_ends 1 (voters_tbl delegating) 1"
    by (simp add: delegating_def mk_voter_def)
  show ?thesis using h propagate_returns [OF h] by simp
qed

text \<open>On two voters that name each other as proxy the call does not return.\<close>

theorem propagate_cycle_counterexample:
  "propagate_weight_change proxy_cycle 1 = None"
proof -
  have "in_cycle proxy_cycle 1"
    by (simp add: in_cycle_def proxy_cycle_def mk_voter_def)
  then show ?thesis
    using in_cycle_never_returns [of proxy_cycle 1]
    by (cases "propagate_weight_change proxy_cycle 1") auto
qed

section \<open>The activation latch\<close>











section \<open>Validation of a vote\<close>

lemma sin_three_halves: "sin (pi / 2 * 3) = - 1"
proof -
  have "pi / 2 * 3 = 3 / 2 * pi" by simp
  then show ?thesis by (simp only: sin_3over2_pi)
qed

lemma weight_negative:
  "inverseVoteWeight [mk_producer 1 (Finite 0) False] 100
     (real (length [1, 2, 3 :: account_name])) VOTE_VARIATION = Finite (- 80)"
  using sin_three_halves by (simp add: inverseVoteWeight_def VOTE_VARIATION_def)

text \<open>
  Claim C1, at a failing input. One producer is registered, and it is inactive. A voter
  with a stake of 100 votes for the slate 1, 2, 3: producer 1 is inactive, producers 2 and
  3 are not registered. Three slots against one registered producer give the weight
  \<open>(0.9 * sin (3 pi / 2) + 0.1) * 100 = - 80\<close>; the block guarded by
  \<^verbatim>\<open>new_vote_weight >= 0\<close> is skipped, no delta is built and no assertion on the
  producers is evaluated. The vote succeeds: the voter's row and
  \<^verbatim>\<open>total_activated_stake\<close> are written.
\<close>

theorem unchecked_slate_accepted:
  "is_active (mk_producer 1 (Finite 0) False) = False \<and>
   find_producer (producers_tbl one_inactive_producer) 2 = None \<and>
   voteproducer any_auth 1000 42 one_inactive_producer 5 0 [1, 2, 3] =
     Some (Inr (one_inactive_producer
       \<lparr>voters_tbl := [5 \<mapsto> mk_voter 5 0 [1, 2, 3] 100 (Finite (- 80)) (Finite 0) False],
        gstate := genesis\<lparr>total_activated_stake := 100\<rparr>\<rparr>))"
  using weight_negative
  by (simp add: voteproducer_def any_auth_def update_votes_def validate_input_def
        one_inactive_producer_def mk_voter_def mk_producer_def find_producer_def
        total_staked_def activate_stake_def remove_old_vote_def apply_new_choice_def
        checkNetworkActivation_def genesis_def modify_voter_def)

text \<open>
  Claim C4, at a failing input. Account 9 has no row in the voters table. A vote of
  account 5 that names 9 as proxy reaches line 173, which reads
  \<^verbatim>\<open>proxied_vote_weight\<close> through the end iterator, before the test of line 233.
\<close>

theorem absent_proxy_dereferenced:
  "voters_tbl fresh_voter 9 = None \<and>
   voteproducer any_auth 1000 42 fresh_voter 5 9 [] =
     Some (Inl (Undefined ''dereference of end iterator''))"
  by (simp add: voteproducer_def any_auth_def update_votes_def validate_input_def
        fresh_voter_def mk_voter_def total_staked_def)

section \<open>Withdrawal by a voter that never voted\<close>















section \<open>From direct votes to a proxy\<close>





lemma add_votes_owner [simp]: "producer_info.owner (add_votes w x) = producer_info.owner x"
  by (simp add: add_votes_def Let_def)





lemma overwritten_owner [simp]:
  "producer_info.owner (overwritten voted slate w x) = producer_info.owner x"
  by (simp add: overwritten_def)








end
